theory Spec2Isabelle
  imports Complex_Main "HOL-Library.AList" "HOL-Library.Sublist"
begin

section \<open>Values and dictionaries\<close>

text \<open>
  Decoded JSON documents and charm configuration values. Python dictionaries keep
  their insertion order, so a dictionary is an association list; assignment
  \<^verbatim>\<open>d[k] = v\<close> is \<^const>\<open>AList.update\<close> (replace in place, or append a new key).
  Non-finite floats (NaN, Infinity) are outside the model.
\<close>

datatype json =
    JNull
  | JBool bool
  | JInt int
  | JFloat real
  | JStr string
  | JArr "json list"
  | JObj "(string \<times> json) list"

type_synonym dict = "(string \<times> json) list"

text \<open>Python's \<^verbatim>\<open>a | b\<close> on dictionaries: the entries of \<open>b\<close> are assigned into a copy of \<open>a\<close>.\<close>

definition dict_or :: "dict \<Rightarrow> dict \<Rightarrow> dict" where
  "dict_or a b = fold (\<lambda>(k, v). AList.update k v) b a"

section \<open>config.py: ConfigOption and BaseConfigFormatter\<close>

datatype OptionMode = Both | Source | Sink | NoMode

datatype IntegratorMode = SourceMode | SinkMode

text \<open>
  The two literal types: \<^verbatim>\<open>Literal["both", "source", "sink", "none"]\<close> of an option and
  \<^verbatim>\<open>IntegratorMode = Literal["source", "sink"]\<close>. The comparison
  \<^verbatim>\<open>option.mode != mode\<close> is between the two.
\<close>

fun option_mode_of :: "IntegratorMode \<Rightarrow> OptionMode" where
  "option_mode_of SourceMode = Source"
| "option_mode_of SinkMode = Sink"

text \<open>
  The field \<^verbatim>\<open>default\<close> is \<open>default_value\<close> here. An option declared without
  \<^verbatim>\<open>mode\<close>, \<^verbatim>\<open>configurable\<close> or \<^verbatim>\<open>description\<close> has \<open>Both\<close>, \<open>True\<close> and the empty
  text.
\<close>

record ConfigOption =
  json_key :: string
  default_value :: json
  mode :: OptionMode
  configurable :: bool
  description :: string

text \<open>
  A formatter class is represented by the list of its fields with their values,
  \<^verbatim>\<open>[(k, getattr(cls, k)) for k in cls.fields()]\<close>, in the order of \<^verbatim>\<open>dir(cls)\<close>.
\<close>

type_synonym formatter = "(string \<times> ConfigOption) list"

fun to_dict_loop :: "formatter \<Rightarrow> (string \<rightharpoonup> json) \<Rightarrow> IntegratorMode \<Rightarrow> dict \<Rightarrow> dict" where
  "to_dict_loop [] charm_config m ret = ret"
| "to_dict_loop ((k, option) # rest) charm_config m ret =
     (if mode option = NoMode then to_dict_loop rest charm_config m ret
      else if mode option \<noteq> Both \<and> mode option \<noteq> option_mode_of m
        then to_dict_loop rest charm_config m ret
      else (case (if configurable option then charm_config k else None) of
              Some v \<Rightarrow> to_dict_loop rest charm_config m (AList.update (json_key option) v ret)
            | None \<Rightarrow>
                to_dict_loop rest charm_config m
                  (AList.update (json_key option) (default_value option) ret)))"

definition to_dict :: "formatter \<Rightarrow> (string \<rightharpoonup> json) \<Rightarrow> IntegratorMode \<Rightarrow> dict" where
  "to_dict flds charm_config m = to_dict_loop flds charm_config m []"

text \<open>An option takes part in the payload of mode \<open>m\<close>: applicability \<open>both\<close> or \<open>m\<close>.\<close>

definition applies :: "ConfigOption \<Rightarrow> IntegratorMode \<Rightarrow> bool" where
  "applies option m = (mode option = Both \<or> mode option = option_mode_of m)"

section \<open>models.py: errors, TaskStatus, ClientContext\<close>

text \<open>
  Every exception the modelled code can raise is a value. \<open>ConnectClientError\<close> and
  \<open>ConnectApiError\<close> are the two classes of models.py; the others are the Python
  exceptions raised by decoding and by reading decoded documents.
\<close>

datatype error =
    ConnectClientError string
  | ConnectApiError string
  | JSONDecodeError
  | AttributeError
  | TypeError
  | KeyError
  | IndexError
  | ValueError

datatype TaskStatus = UNASSIGNED | PAUSED | RUNNING | STOPPED | FAILED | UNKNOWN

text \<open>The enum lookup \<^verbatim>\<open>TaskStatus(state)\<close>: a value that is no member's name raises ValueError.\<close>

definition TaskStatus_of :: "json \<Rightarrow> error + TaskStatus" where
  "TaskStatus_of state =
     (if state = JStr ''UNASSIGNED'' then Inr UNASSIGNED
      else if state = JStr ''PAUSED'' then Inr PAUSED
      else if state = JStr ''RUNNING'' then Inr RUNNING
      else if state = JStr ''STOPPED'' then Inr STOPPED
      else if state = JStr ''FAILED'' then Inr FAILED
      else if state = JStr ''UNKNOWN'' then Inr UNKNOWN
      else Inl ValueError)"

record ClientContext =
  relation :: "nat option"
  relation_data :: "string \<rightharpoonup> string"

definition relation_field :: "ClientContext \<Rightarrow> string \<Rightarrow> string" where
  "relation_field ctx field =
     (case relation ctx of
        None \<Rightarrow> []
      | Some _ \<Rightarrow> (case relation_data ctx field of None \<Rightarrow> [] | Some v \<Rightarrow> v))"

definition username :: "ClientContext \<Rightarrow> string" where
  "username ctx = relation_field ctx ''username''"

definition endpoints :: "ClientContext \<Rightarrow> string" where
  "endpoints ctx = relation_field ctx ''endpoints''"

definition password :: "ClientContext \<Rightarrow> string" where
  "password ctx = relation_field ctx ''password''"

section \<open>Python text primitives used by the client\<close>

text \<open>\<^verbatim>\<open>s.split(sep)\<close> for a one-character separator.\<close>

fun split :: "char \<Rightarrow> string \<Rightarrow> string list" where
  "split sep [] = [[]]"
| "split sep (c # cs) =
     (if c = sep then [] # split sep cs
      else (case split sep cs of
              w # ws \<Rightarrow> (c # w) # ws
            | [] \<Rightarrow> [[c]]))"

text \<open>
  The text an f-string gives for a \<^verbatim>\<open>bytes\<close> value such as \<^verbatim>\<open>response.content\<close>:
  \<^verbatim>\<open>b'...'\<close>, in double quotes when the bytes hold a single quote and no double one,
  with backslash escapes for the quote, the backslash, tab, newline, carriage return
  and every byte outside the printable ASCII range.
\<close>

definition hex_digit :: "nat \<Rightarrow> char" where
  "hex_digit n = ''0123456789abcdef'' ! (n mod 16)"

definition repr_byte :: "char \<Rightarrow> char \<Rightarrow> string" where
  "repr_byte quote c =
     (if c = quote \<or> c = CHR 0x5C then [CHR 0x5C, c]
      else if c = CHR 0x09 then [CHR 0x5C, CHR ''t'']
      else if c = CHR 0x0A then [CHR 0x5C, CHR ''n'']
      else if c = CHR 0x0D then [CHR 0x5C, CHR ''r'']
      else if (of_char c :: nat) < 32 \<or> 127 \<le> (of_char c :: nat)
        then [CHR 0x5C, CHR ''x'', hex_digit (of_char c div 16), hex_digit (of_char c)]
      else [c])"

definition repr_bytes :: "string \<Rightarrow> string" where
  "repr_bytes bs =
     (let quote = (if CHR 0x27 \<in> set bs \<and> CHR 0x22 \<notin> set bs then CHR 0x22 else CHR 0x27)
      in CHR ''b'' # quote # concat (map (repr_byte quote) bs) @ [quote])"

text \<open>\<^verbatim>\<open>str(n)\<close> for a non-negative integer (relation ids).\<close>

function str_nat :: "nat \<Rightarrow> string" where
  "str_nat n =
     (if n < 10 then [char_of (48 + n)]
      else str_nat (n div 10) @ [char_of (48 + n mod 10)])"
  by pat_completeness auto
termination
  by (relation "measure id") auto

declare str_nat.simps [simp del]

text \<open>\<^verbatim>\<open>x or y\<close> on an optional name: \<^verbatim>\<open>None\<close> and the empty string are falsy.\<close>

definition name_or :: "string option \<Rightarrow> string \<Rightarrow> string" where
  "name_or x y = (case x of None \<Rightarrow> y | Some n \<Rightarrow> if n = [] then y else n)"

text \<open>Truth value of a decoded document, as \<^verbatim>\<open>if not tasks\<close> reads it.\<close>

fun truthy :: "json \<Rightarrow> bool" where
  "truthy JNull = False"
| "truthy (JBool b) = b"
| "truthy (JInt i) = (i \<noteq> 0)"
| "truthy (JFloat x) = (x \<noteq> 0)"
| "truthy (JStr s) = (s \<noteq> [])"
| "truthy (JArr xs) = (xs \<noteq> [])"
| "truthy (JObj kvs) = (kvs \<noteq> [])"

text \<open>
  \<^verbatim>\<open>s in x\<close> for a text \<open>s\<close>: substring of a text, element of a list, key of a
  dictionary; any other right operand raises TypeError.
\<close>

fun str_in :: "string \<Rightarrow> json \<Rightarrow> error + bool" where
  "str_in s (JStr t) = Inr (sublist s t)"
| "str_in s (JArr xs) = Inr (JStr s \<in> set xs)"
| "str_in s (JObj kvs) = Inr (s \<in> set (map fst kvs))"
| "str_in s v = Inl TypeError"

text \<open>\<^verbatim>\<open>x.get(key, dflt)\<close>: only a dictionary has the method.\<close>

fun json_get :: "json \<Rightarrow> string \<Rightarrow> json \<Rightarrow> error + json" where
  "json_get (JObj kvs) key dflt =
     Inr (case map_of kvs key of None \<Rightarrow> dflt | Some v \<Rightarrow> v)"
| "json_get v key dflt = Inl AttributeError"

section \<open>connect.py: ConnectClient\<close>

text \<open>
  The arguments one call of \<^verbatim>\<open>requests.request\<close> receives, and what the client reads
  of the response: the status code, the raw body, and the result of
  \<^verbatim>\<open>response.json()\<close> (\<open>None\<close> when the body does not decode). The model does
  not decode the body itself: the two fields are independent, and what is proved
  holds for every pair. The constant argument \<^verbatim>\<open>verify=False\<close> is left out.
\<close>

record http_request =
  http_method :: string
  url :: string
  auth :: "string \<times> string"
  json_payload :: "json option"
  timeout :: "nat option"

record response =
  status_code :: int
  content :: string
  decoded :: "json option"

text \<open>
  The HTTP library and the remote endpoint: given the calls made so far and the next
  call, either an exception (its text) or a response.
\<close>

type_synonym transport = "http_request list \<Rightarrow> http_request \<Rightarrow> string + response"

record ConnectClient =
  client_context :: ClientContext
  connector_name :: string

definition endpoint :: "ConnectClient \<Rightarrow> error + string" where
  "endpoint self =
     (let eps = split CHR '','' (endpoints (client_context self))
      in if length eps < 1 then Inl (ConnectClientError ''No connect endpoints available.'')
         else Inr (hd eps))"

text \<open>
  Every function of the client takes the list of calls made so far and returns it
  extended, next to its result or the exception it raises.
\<close>

definition request ::
  "transport \<Rightarrow> ConnectClient \<Rightarrow> string \<Rightarrow> string \<Rightarrow> json option \<Rightarrow> nat option
     \<Rightarrow> http_request list \<Rightarrow> (error + response) \<times> http_request list" where
  "request send self method api body tmo calls =
     (case endpoint self of
        Inl e \<Rightarrow> (Inl e, calls)
      | Inr ep \<Rightarrow>
          (let req = \<lparr>http_method = method, url = ep @ ''/'' @ api,
                      auth = (username (client_context self), password (client_context self)),
                      json_payload = body, timeout = tmo\<rparr>
           in case send calls req of
                Inl e \<Rightarrow>
                  (Inl (ConnectApiError (''Connect API call /'' @ api @ '' failed: '' @ e)),
                   calls @ [req])
              | Inr response \<Rightarrow> (Inr response, calls @ [req])))"

text \<open>\<^verbatim>\<open>"already exists" in response.json().get("message", "")\<close>\<close>

definition already_exists :: "response \<Rightarrow> error + bool" where
  "already_exists response =
     (case decoded response of
        None \<Rightarrow> Inl JSONDecodeError
      | Some doc \<Rightarrow>
          (case json_get doc ''message'' (JStr []) of
             Inl e \<Rightarrow> Inl e
           | Inr msg \<Rightarrow> str_in ''already exists'' msg))"

definition ConnectClient_start_connector ::
  "transport \<Rightarrow> ConnectClient \<Rightarrow> dict \<Rightarrow> string option
     \<Rightarrow> http_request list \<Rightarrow> (error + unit) \<times> http_request list" where
  "ConnectClient_start_connector send self connector_config name calls =
     (case request send self ''POST'' ''connectors''
             (Some (JObj [(''name'', JStr (name_or name (connector_name self))),
                          (''config'', JObj connector_config)])) None calls of
        (Inl e, calls') \<Rightarrow> (Inl e, calls')
      | (Inr response, calls') \<Rightarrow>
          if status_code response = 201 then (Inr (), calls')
          else (case (if status_code response = 409 then already_exists response
                      else Inr False) of
                  Inl e \<Rightarrow> (Inl e, calls')
                | Inr True \<Rightarrow> (Inr (), calls')
                | Inr False \<Rightarrow>
                    (Inl (ConnectApiError (''Unable to start the connector, details: ''
                            @ repr_bytes (content response))), calls')))"

definition ConnectClient_resume_connector ::
  "transport \<Rightarrow> ConnectClient \<Rightarrow> string option
     \<Rightarrow> http_request list \<Rightarrow> (error + unit) \<times> http_request list" where
  "ConnectClient_resume_connector send self name calls =
     (case request send self ''PUT''
             (''connectors/'' @ name_or name (connector_name self) @ ''/resume'') None None calls of
        (Inl e, calls') \<Rightarrow> (Inl e, calls')
      | (Inr response, calls') \<Rightarrow>
          if status_code response = 202 then (Inr (), calls')
          else (Inl (ConnectApiError (''Unable to resume the connector, details: ''
                       @ repr_bytes (content response))), calls'))"


text \<open>\<^verbatim>\<open>tasks[0].get("id", {}).get("task", 0)\<close> on a truthy decoded document.\<close>

fun first_task_id :: "json \<Rightarrow> error + json" where
  "first_task_id (JArr (t # ts)) =
     (case json_get t ''id'' (JObj []) of
        Inl e \<Rightarrow> Inl e
      | Inr ident \<Rightarrow> json_get ident ''task'' (JInt 0))"
| "first_task_id (JArr []) = Inl IndexError"
| "first_task_id (JStr s) = Inl AttributeError"
| "first_task_id (JObj kvs) = Inl KeyError"
| "first_task_id v = Inl TypeError"

text \<open>
  The text of the task id inside the f-string of the second URL is Python's \<^verbatim>\<open>str\<close>
  of a decoded value; it is the parameter \<open>py_str\<close>.
\<close>

definition ConnectClient_task_status ::
  "transport \<Rightarrow> (json \<Rightarrow> string) \<Rightarrow> ConnectClient \<Rightarrow> string option
     \<Rightarrow> http_request list \<Rightarrow> (error + TaskStatus) \<times> http_request list" where
  "ConnectClient_task_status send py_str self name calls =
     (let cname = name_or name (connector_name self) in
      case request send self ''GET'' (''connectors/'' @ cname @ ''/tasks'') None (Some 10) calls of
        (Inl e, calls1) \<Rightarrow> (Inl e, calls1)
      | (Inr response, calls1) \<Rightarrow>
          if status_code response \<noteq> 200 \<and> status_code response \<noteq> 404 then (Inr UNKNOWN, calls1)
          else if status_code response = 404 then (Inr UNASSIGNED, calls1)
          else (case decoded response of
                  None \<Rightarrow> (Inl JSONDecodeError, calls1)
                | Some tasks \<Rightarrow>
                    if \<not> truthy tasks then (Inr UNASSIGNED, calls1)
                    else (case first_task_id tasks of
                            Inl e \<Rightarrow> (Inl e, calls1)
                          | Inr task_id \<Rightarrow>
                              (case request send self ''GET''
                                      (''connectors/'' @ cname @ ''/tasks/'' @ py_str task_id
                                         @ ''/status'') None (Some 10) calls1 of
                                 (Inl e, calls2) \<Rightarrow> (Inl e, calls2)
                               | (Inr status_response, calls2) \<Rightarrow>
                                   if status_code status_response = 404
                                     then (Inr UNASSIGNED, calls2)
                                   else if status_code status_response \<noteq> 200
                                     then (Inr UNKNOWN, calls2)
                                   else (case decoded status_response of
                                           None \<Rightarrow> (Inl JSONDecodeError, calls2)
                                         | Some doc \<Rightarrow>
                                             (case json_get doc ''state'' (JStr ''UNASSIGNED'') of
                                                Inl e \<Rightarrow> (Inl e, calls2)
                                              | Inr state \<Rightarrow> (TaskStatus_of state, calls2)))))))"

definition ConnectClient_connector_status ::
  "transport \<Rightarrow> ConnectClient \<Rightarrow> http_request list
     \<Rightarrow> (error + TaskStatus) \<times> http_request list" where
  "ConnectClient_connector_status send self calls =
     (case request send self ''GET'' (''connectors/'' @ connector_name self @ ''/status'')
             None (Some 10) calls of
        (Inl (ConnectApiError e), calls') \<Rightarrow> (Inr UNKNOWN, calls')
      | (Inl e, calls') \<Rightarrow> (Inl e, calls')
      | (Inr response, calls') \<Rightarrow>
          if status_code response \<noteq> 200 \<and> status_code response \<noteq> 404 then (Inr UNKNOWN, calls')
          else if status_code response = 404 then (Inr UNASSIGNED, calls')
          else (case decoded response of
                  None \<Rightarrow> (Inl JSONDecodeError, calls')
                | Some status_response \<Rightarrow>
                    (case json_get status_response ''connector'' (JObj []) of
                       Inl e \<Rightarrow> (Inl e, calls')
                     | Inr connector \<Rightarrow>
                         (case json_get connector ''state'' (JStr ''UNASSIGNED'') of
                            Inl e \<Rightarrow> (Inl e, calls')
                          | Inr state \<Rightarrow> (TaskStatus_of state, calls')))))"

section \<open>base.py: BaseIntegrator\<close>

text \<open>
  The state the integrator reads and writes: its class attributes and charm
  configuration, the two relations, and the calls made to the HTTP library so far.
  The peer relation's unit data holds the field \<^verbatim>\<open>started\<close> and the secret field
  \<^verbatim>\<open>config\<close>; the latter is JSON text written by \<^verbatim>\<open>json.dumps\<close> and read back by
  \<^verbatim>\<open>json.loads\<close>, and the model keeps the dictionary itself. Log messages are not
  modelled. The cached properties \<^verbatim>\<open>_client_context\<close> and \<^verbatim>\<open>_client\<close> are computed from
  the state at each use.
\<close>

record peer_data =
  started_field :: "string option"
  config_field :: "dict option"

record BaseIntegrator =
  name :: string
  formatter :: formatter
  config :: "string \<rightharpoonup> json"
  integrator_mode :: string
  model_uuid :: string
  connect_client_relation :: "(nat \<times> (string \<rightharpoonup> string)) option"
  peer_relation :: "peer_data option"
  http_calls :: "http_request list"

definition BaseIntegrator_client_context :: "BaseIntegrator \<Rightarrow> ClientContext" where
  "BaseIntegrator_client_context self =
     (case connect_client_relation self of
        None \<Rightarrow> \<lparr>relation = None, relation_data = Map.empty\<rparr>
      | Some (rid, data) \<Rightarrow> \<lparr>relation = Some rid, relation_data = data\<rparr>)"

definition connector_unique_name :: "BaseIntegrator \<Rightarrow> string" where
  "connector_unique_name self =
     (case connect_client_relation self of
        None \<Rightarrow> []
      | Some (relation_id, data) \<Rightarrow>
          name self @ ''_r'' @ str_nat relation_id @ ''_''
            @ filter (\<lambda>c. c \<noteq> CHR ''-'') (model_uuid self))"

definition BaseIntegrator_client :: "BaseIntegrator \<Rightarrow> ConnectClient" where
  "BaseIntegrator_client self =
     \<lparr>client_context = BaseIntegrator_client_context self,
      connector_name = connector_unique_name self\<rparr>"

definition started :: "BaseIntegrator \<Rightarrow> bool" where
  "started self =
     (case peer_relation self of
        None \<Rightarrow> False
      | Some peer \<Rightarrow> (case started_field peer of None \<Rightarrow> False | Some v \<Rightarrow> v \<noteq> []))"

definition set_started :: "bool \<Rightarrow> BaseIntegrator \<Rightarrow> BaseIntegrator" where
  "set_started val self =
     (case peer_relation self of
        None \<Rightarrow> self
      | Some peer \<Rightarrow>
          if val then self\<lparr>peer_relation := Some (peer\<lparr>started_field := Some ''true''\<rparr>)\<rparr>
          else self\<lparr>peer_relation := Some (peer\<lparr>started_field := None\<rparr>)\<rparr>)"

definition dynamic_config :: "BaseIntegrator \<Rightarrow> dict" where
  "dynamic_config self =
     (case peer_relation self of
        None \<Rightarrow> []
      | Some peer \<Rightarrow> (case config_field peer of None \<Rightarrow> [] | Some d \<Rightarrow> d))"

text \<open>
  \<^verbatim>\<open>MULTICONNECTOR_PREFIX\<close> is imported from models.py, whose text does not define it:
  it is the parameter \<open>multiconnector_prefix\<close>.
\<close>

definition connector_names :: "string \<Rightarrow> BaseIntegrator \<Rightarrow> string list" where
  "connector_names multiconnector_prefix self =
     filter (prefix multiconnector_prefix) (map fst (dynamic_config self))"

text \<open>The abstract method \<^verbatim>\<open>setup\<close>, supplied by the subclass.\<close>

type_synonym setup_method = "BaseIntegrator \<Rightarrow> (error + unit) \<times> BaseIntegrator"

text \<open>A verb of the client, as \<^verbatim>\<open>start_connector\<close> and \<^verbatim>\<open>patch_connector\<close> call it.\<close>

type_synonym verb =
  "ConnectClient \<Rightarrow> dict \<Rightarrow> string option \<Rightarrow> http_request list
     \<Rightarrow> (error + unit) \<times> http_request list"

text \<open>
  \<^verbatim>\<open>try: <client call> except ConnectApiError: log; return\<close>. The result \<open>Inr False\<close>
  says that the enclosing method returned; any other exception goes on.
\<close>

fun except_api_error ::
  "(error + unit) \<times> http_request list \<Rightarrow> BaseIntegrator \<Rightarrow> (error + bool) \<times> BaseIntegrator" where
  "except_api_error (Inl (ConnectApiError e), calls) self = (Inr False, self\<lparr>http_calls := calls\<rparr>)"
| "except_api_error (Inl e, calls) self = (Inl e, self\<lparr>http_calls := calls\<rparr>)"
| "except_api_error (Inr u, calls) self = (Inr True, self\<lparr>http_calls := calls\<rparr>)"

text \<open>\<^verbatim>\<open>formatter.to_dict(charm_config=self.config, mode="source") | overrides\<close>\<close>

definition merged_config :: "BaseIntegrator \<Rightarrow> json \<Rightarrow> error + dict" where
  "merged_config self overrides =
     (case overrides of
        JObj d \<Rightarrow> Inr (dict_or (to_dict (formatter self) (config self) SourceMode) d)
      | _ \<Rightarrow> Inl TypeError)"

text \<open>
  The loop over \<^verbatim>\<open>self.connector_names\<close>, the same in \<^verbatim>\<open>start_connector\<close> and
  \<^verbatim>\<open>patch_connector\<close> but for the verb of the client.
\<close>

fun each_connector ::
  "verb \<Rightarrow> BaseIntegrator \<Rightarrow> string list \<Rightarrow> (error + bool) \<times> BaseIntegrator" where
  "each_connector verb self [] = (Inr True, self)"
| "each_connector verb self (cname # rest) =
     (case map_of (dynamic_config self) cname of
        None \<Rightarrow> (Inl KeyError, self)
      | Some overrides \<Rightarrow>
          (case merged_config self overrides of
             Inl e \<Rightarrow> (Inl e, self)
           | Inr connector_config \<Rightarrow>
               (case except_api_error
                       (verb (BaseIntegrator_client self) connector_config (Some cname)
                          (http_calls self)) self of
                  (Inr True, self') \<Rightarrow> each_connector verb self' rest
                | (r, self') \<Rightarrow> (r, self'))))"

text \<open>
  The body of both methods after \<^verbatim>\<open>self.setup()\<close>: the loop, the single connector
  case, and \<^verbatim>\<open>self.started = True\<close>.
\<close>

definition submit_connectors ::
  "string \<Rightarrow> verb \<Rightarrow> BaseIntegrator \<Rightarrow> (error + unit) \<times> BaseIntegrator" where
  "submit_connectors multiconnector_prefix verb self =
     (case each_connector verb self (connector_names multiconnector_prefix self) of
        (Inl e, s1) \<Rightarrow> (Inl e, s1)
      | (Inr False, s1) \<Rightarrow> (Inr (), s1)
      | (Inr True, s1) \<Rightarrow>
          if connector_names multiconnector_prefix s1 = [] then
            (case except_api_error
                    (verb (BaseIntegrator_client s1)
                       (dict_or (to_dict (formatter s1) (config s1) SourceMode)
                          (dynamic_config s1))
                       None (http_calls s1)) s1 of
               (Inl e, s2) \<Rightarrow> (Inl e, s2)
             | (Inr False, s2) \<Rightarrow> (Inr (), s2)
             | (Inr True, s2) \<Rightarrow> (Inr (), set_started True s2))
          else (Inr (), set_started True s1))"

definition BaseIntegrator_start_connector ::
  "string \<Rightarrow> transport \<Rightarrow> setup_method \<Rightarrow> BaseIntegrator \<Rightarrow> (error + unit) \<times> BaseIntegrator" where
  "BaseIntegrator_start_connector multiconnector_prefix send run_setup self =
     (if started self then (Inr (), self)
      else (case run_setup self of
              (Inl e, s1) \<Rightarrow> (Inl e, s1)
            | (Inr u, s1) \<Rightarrow>
                submit_connectors multiconnector_prefix (ConnectClient_start_connector send) s1))"


definition BaseIntegrator_connector_status ::
  "transport \<Rightarrow> BaseIntegrator \<Rightarrow> (error + TaskStatus) \<times> BaseIntegrator" where
  "BaseIntegrator_connector_status send self =
     (case ConnectClient_connector_status send (BaseIntegrator_client self) (http_calls self) of
        (r, calls) \<Rightarrow> (r, self\<lparr>http_calls := calls\<rparr>))"

definition maybe_resume_connector ::
  "transport \<Rightarrow> BaseIntegrator \<Rightarrow> (error + unit) \<times> BaseIntegrator" where
  "maybe_resume_connector send self =
     (case BaseIntegrator_connector_status send self of
        (Inl e, s1) \<Rightarrow> (Inl e, s1)
      | (Inr status, s1) \<Rightarrow>
          if status \<noteq> STOPPED then (Inr (), s1)
          else (case except_api_error
                       (ConnectClient_resume_connector send (BaseIntegrator_client s1) None
                          (http_calls s1)) s1 of
                  (Inl e, s2) \<Rightarrow> (Inl e, s2)
                | (Inr b, s2) \<Rightarrow> (Inr (), s2)))"

section \<open>The formatter and integrator of the test charm\<close>

text \<open>
  The formatter class of the test charm, as \<^verbatim>\<open>fields()\<close> lists it: the attributes in
  the order of \<^verbatim>\<open>dir\<close>, with the inherited option \<^verbatim>\<open>mode\<close> of the base class.
\<close>

definition ConfigFormatter :: formatter where
  \<open>ConfigFormatter =
     [(''file_path'',
         \<lparr>json_key = ''file'',
          default_value = JStr ''/var/snap/charmed-kafka/common/var/log/connect/test.jsonl'',
          mode = Both, configurable = True, description = []\<rparr>),
      (''key_converter'',
         \<lparr>json_key = ''key.converter'',
          default_value = JStr ''org.apache.kafka.connect.storage.StringConverter'',
          mode = Sink, configurable = False, description = []\<rparr>),
      (''mode'',
         \<lparr>json_key = ''na'', default_value = JStr ''source'', mode = NoMode,
          configurable = True,
          description = ''Integrator mode, either "source" or "sink"''\<rparr>),
      (''tasks_max'',
         \<lparr>json_key = ''tasks.max'', default_value = JInt 1, mode = Both,
          configurable = False, description = []\<rparr>),
      (''topic'',
         \<lparr>json_key = ''topic'', default_value = JStr ''test'', mode = Source,
          configurable = True, description = []\<rparr>),
      (''topic_partitions'',
         \<lparr>json_key = ''topic.creation.default.partitions'', default_value = JInt 10,
          mode = Both, configurable = False, description = []\<rparr>),
      (''topic_replication_factor'',
         \<lparr>json_key = ''topic.creation.default.replication.factor'', default_value = JInt (- 1),
          mode = Both, configurable = False, description = []\<rparr>),
      (''value_converter'',
         \<lparr>json_key = ''value.converter'',
          default_value = JStr ''org.apache.kafka.connect.json.JsonConverter'',
          mode = Both, configurable = False, description = []\<rparr>)]\<close>

text \<open>
  The integrator of the test charm in one scenario: configured in sink mode, related
  to a Connect cluster by relation 7, not started, with dynamic configuration for
  two connectors; and a Connect cluster that answers 201 to every call.
\<close>

definition test_integrator :: BaseIntegrator where
  "test_integrator =
     \<lparr>name = ''test-integrator'',
      formatter = ConfigFormatter,
      config = Map.empty(''mode'' \<mapsto> JStr ''sink'', ''topic'' \<mapsto> JStr ''source_test''),
      integrator_mode = ''sink'',
      model_uuid = ''6c2f-a0ab'',
      connect_client_relation =
        Some (7, Map.empty(''endpoints'' \<mapsto> ''http://10.0.0.5:8083'',
                           ''username'' \<mapsto> ''admin'', ''password'' \<mapsto> ''secret'')),
      peer_relation =
        Some \<lparr>started_field = None,
              config_field =
                Some [(''multi_a_test-integrator_r7_6c2fa0ab'', JObj [(''topic'', JStr ''alpha'')]),
                      (''multi_b_test-integrator_r7_6c2fa0ab'',
                         JObj [(''file'', JStr ''/tmp/b.jsonl''), (''extra'', JInt 1)])]\<rparr>,
      http_calls = []\<rparr>"

definition created :: transport where
  "created calls req = Inr \<lparr>status_code = 201, content = [], decoded = None\<rparr>"

definition no_setup :: setup_method where
  "no_setup self = (Inr (), self)"

section \<open>Properties of the formatter\<close>

lemma map_of_fold_update:
  "map_of (fold (\<lambda>(k, v). AList.update k v) b a) = map_of a ++ map_of (rev b)"
proof (induction b arbitrary: a)
  case Nil
  show ?case by simp
next
  case (Cons p b)
  obtain k v where p: "p = (k, v)" by (cases p)
  have "map_of (fold (\<lambda>(k, v). AList.update k v) b (AList.update k v a))
        = map_of (AList.update k v a) ++ map_of (rev b)"
    by (rule Cons.IH)
  also have "\<dots> = (map_of a ++ [k \<mapsto> v]) ++ map_of (rev b)"
    by (simp add: update_conv')
  also have "\<dots> = map_of a ++ map_of (rev (p # b))"
    by (simp add: p map_add_assoc [symmetric])
  finally show ?case by (simp add: p)
qed

lemma map_of_dict_or:
  assumes "distinct (map fst b)"
  shows "map_of (dict_or a b) = map_of a ++ map_of b"
proof -
  from assms have "map_of (rev b) = map_of b"
    by (metis distinct_rev rev_map map_of_inject_set set_rev)
  then show ?thesis
    by (simp add: dict_or_def map_of_fold_update)
qed

lemma to_dict_loop_skip:
  "\<not> applies opt m \<Longrightarrow>
     to_dict_loop ((k, opt) # flds) cfg m ret = to_dict_loop flds cfg m ret"
  by (cases m; cases "mode opt") (simp_all add: applies_def)

lemma to_dict_loop_emit:
  "applies opt m \<Longrightarrow>
     to_dict_loop ((k, opt) # flds) cfg m ret
       = to_dict_loop flds cfg m
           (AList.update (json_key opt)
              (case (if configurable opt then cfg k else None) of
                 Some v \<Rightarrow> v | None \<Rightarrow> default_value opt) ret)"
  by (cases m; cases "mode opt") (simp_all add: applies_def split: option.splits)

lemma to_dict_loop_keys:
  "fst ` set (to_dict_loop flds cfg m ret)
     = fst ` set ret \<union> {json_key opt | k opt. (k, opt) \<in> set flds \<and> applies opt m}"
proof (induction flds arbitrary: ret)
  case Nil
  show ?case by simp
next
  case (Cons f flds)
  obtain k opt where f: "f = (k, opt)" by (cases f)
  show ?case
  proof (cases "applies opt m")
    case False
    then show ?thesis
      unfolding f to_dict_loop_skip [OF False] Cons.IH by auto
  next
    case True
    then show ?thesis
      unfolding f to_dict_loop_emit [OF True] Cons.IH by (auto simp: dom_update)
  qed
qed


subsection \<open>Claims about the formatter\<close>

text \<open>
  Claim C6, as amended. For every list of declared options, every desired
  configuration and every mode, the keys of the payload of \<open>to_dict\<close> are exactly the
  wire keys of the options whose applicability is \<open>both\<close> or the mode (an option of
  applicability \<open>none\<close> never contributes an entry); and when no two declared options
  share a wire key, the payload contains an option's wire key if and only if the
  option's applicability is \<open>both\<close> or the mode.
\<close>

theorem to_dict_keys:
  "fst ` set (to_dict flds cfg m)
     = {json_key opt | k opt. (k, opt) \<in> set flds \<and> (mode opt = Both \<or> mode opt = option_mode_of m)}
   \<and> (distinct (map (json_key \<circ> snd) flds) \<longrightarrow>
        (\<forall>(k, opt) \<in> set flds.
           json_key opt \<in> fst ` set (to_dict flds cfg m)
             \<longleftrightarrow> (mode opt = Both \<or> mode opt = option_mode_of m)))"
proof -
  have keys: "fst ` set (to_dict flds cfg m)
     = {json_key opt | k opt. (k, opt) \<in> set flds \<and> (mode opt = Both \<or> mode opt = option_mode_of m)}"
    using to_dict_loop_keys [of flds cfg m "[]"] by (simp add: to_dict_def applies_def)
  have iff: "json_key opt \<in> fst ` set (to_dict flds cfg m)
             \<longleftrightarrow> (mode opt = Both \<or> mode opt = option_mode_of m)"
    if d: "distinct (map (json_key \<circ> snd) flds)" and mem: "(k, opt) \<in> set flds" for k opt
  proof
    assume "json_key opt \<in> fst ` set (to_dict flds cfg m)"
    then obtain k' opt' where o': "(k', opt') \<in> set flds" "json_key opt' = json_key opt"
      and ap: "mode opt' = Both \<or> mode opt' = option_mode_of m"
      unfolding keys by auto
    from d have "inj_on (json_key \<circ> snd) (set flds)"
      by (simp add: distinct_map)
    then have "(k', opt') = (k, opt)"
      by (rule inj_onD) (use mem o' in simp_all)
    with ap show "mode opt = Both \<or> mode opt = option_mode_of m" by simp
  next
    assume "mode opt = Both \<or> mode opt = option_mode_of m"
    with mem show "json_key opt \<in> fst ` set (to_dict flds cfg m)"
      unfolding keys by auto
  qed
  show ?thesis
  proof (intro conjI impI ballI)
    show "fst ` set (to_dict flds cfg m)
      = {json_key opt | k opt. (k, opt) \<in> set flds \<and> (mode opt = Both \<or> mode opt = option_mode_of m)}"
      by (rule keys)
  next
    fix x
    assume d: "distinct (map (json_key \<circ> snd) flds)" and x: "x \<in> set flds"
    obtain k opt where xeq: "x = (k, opt)" by (cases x)
    from iff [OF d, of k opt] x
    show "case x of (k, opt) \<Rightarrow>
            json_key opt \<in> fst ` set (to_dict flds cfg m)
              \<longleftrightarrow> (mode opt = Both \<or> mode opt = option_mode_of m)"
      by (simp add: xeq)
  qed
qed

text \<open>An instance: the formatter of the test charm in source mode.\<close>

theorem to_dict_keys_witness:
  "distinct (map (json_key \<circ> snd) ConfigFormatter)
   \<and> ''topic'' \<in> fst ` set (to_dict ConfigFormatter Map.empty SourceMode)
   \<and> ''key.converter'' \<notin> fst ` set (to_dict ConfigFormatter Map.empty SourceMode)
   \<and> ''na'' \<notin> fst ` set (to_dict ConfigFormatter Map.empty SourceMode)"
proof -
  let ?keys = "fst ` set (to_dict ConfigFormatter Map.empty SourceMode)"
  have d: "distinct (map (json_key \<circ> snd) ConfigFormatter)"
    by (simp add: ConfigFormatter_def)
  with to_dict_keys [of ConfigFormatter Map.empty SourceMode]
  have iff: "\<forall>(k, opt) \<in> set ConfigFormatter.
               json_key opt \<in> ?keys \<longleftrightarrow> (mode opt = Both \<or> mode opt = option_mode_of SourceMode)"
    by blast
  have "(''topic'', \<lparr>json_key = ''topic'', default_value = JStr ''test'', mode = Source,
          configurable = True, description = []\<rparr>) \<in> set ConfigFormatter"
    by (simp add: ConfigFormatter_def)
  from bspec [OF iff this] have 1: "''topic'' \<in> ?keys" by simp
  have "(''key_converter'',
         \<lparr>json_key = ''key.converter'',
          default_value = JStr ''org.apache.kafka.connect.storage.StringConverter'',
          mode = Sink, configurable = False, description = []\<rparr>) \<in> set ConfigFormatter"
    by (simp add: ConfigFormatter_def)
  from bspec [OF iff this] have 2: "''key.converter'' \<notin> ?keys" by simp
  have \<open>(''mode'',
         \<lparr>json_key = ''na'', default_value = JStr ''source'', mode = NoMode,
          configurable = True,
          description = ''Integrator mode, either "source" or "sink"''\<rparr>) \<in> set ConfigFormatter\<close>
    by (simp add: ConfigFormatter_def)
  from bspec [OF iff this] have 3: "''na'' \<notin> ?keys" by simp
  from d 1 2 3 show ?thesis by blast
qed

text \<open>
  The claim as stated fails when two options share a wire key: a sink-only and a
  source-only option both writing \<^verbatim>\<open>connector.class\<close>. In source mode the payload
  holds the sink option's wire key, though its applicability is neither \<open>both\<close> nor
  the mode.
\<close>

theorem to_dict_shared_key_counterexample:
  "json_key \<lparr>json_key = ''connector.class'', default_value = JStr ''FileStreamSinkConnector'',
              mode = Sink, configurable = False, description = []\<rparr>
     \<in> fst ` set (to_dict
          [(''connector_class_sink'',
              \<lparr>json_key = ''connector.class'', default_value = JStr ''FileStreamSinkConnector'',
               mode = Sink, configurable = False, description = []\<rparr>),
           (''connector_class_source'',
              \<lparr>json_key = ''connector.class'', default_value = JStr ''FileStreamSourceConnector'',
               mode = Source, configurable = False, description = []\<rparr>)]
          Map.empty SourceMode)
   \<and> \<not> (mode \<lparr>json_key = ''connector.class'', default_value = JStr ''FileStreamSinkConnector'',
              mode = Sink, configurable = False, description = []\<rparr> = Both
        \<or> mode \<lparr>json_key = ''connector.class'', default_value = JStr ''FileStreamSinkConnector'',
              mode = Sink, configurable = False, description = []\<rparr> = option_mode_of SourceMode)"
  by (simp add: to_dict_def)



section \<open>Properties of the client\<close>

text \<open>
  \<^verbatim>\<open>split\<close> never returns the empty list, so the guard of \<^verbatim>\<open>endpoint\<close> never fires:
  the property always returns the text before the first comma.
\<close>

lemma split_not_Nil: "split sep s \<noteq> []"
  by (induction s) (auto split: list.splits)

lemma endpoint_total:
  "endpoint self = Inr (hd (split CHR '','' (endpoints (client_context self))))"
  using split_not_Nil [of "CHR '',''" "endpoints (client_context self)"]
  by (simp add: endpoint_def Let_def)

lemma request_sent:
  "request send self method api body tmo calls =
     (let req = \<lparr>http_method = method,
                 url = hd (split CHR '','' (endpoints (client_context self))) @ ''/'' @ api,
                 auth = (username (client_context self), password (client_context self)),
                 json_payload = body, timeout = tmo\<rparr>
      in (case send calls req of
            Inl e \<Rightarrow> Inl (ConnectApiError (''Connect API call /'' @ api @ '' failed: '' @ e))
          | Inr response \<Rightarrow> Inr response, calls @ [req]))"
  by (simp add: request_def endpoint_total Let_def split: sum.splits)

subsection \<open>Claims about the client\<close>



text \<open>
  Claim C3 (not met by the code). The claim expects ConnectClientError before any HTTP
  call when the endpoint list is empty. With no endpoints in the relation data,
  \<^verbatim>\<open>endpoint\<close> returns the empty text, and \<^verbatim>\<open>start_connector\<close> of the client calls the
  HTTP library with the URL \<^verbatim>\<open>/connectors\<close>; what comes back is the ConnectApiError
  wrapping the library's exception, which \<^verbatim>\<open>start_connector\<close> of the integrator
  catches: it returns normally, after one call.
\<close>

theorem endpoint_with_empty_endpoints:
  "endpoint \<lparr>client_context = \<lparr>relation = Some 7, relation_data = Map.empty\<rparr>,
             connector_name = ''c1''\<rparr> = Inr []
   \<and> ConnectClient_start_connector (\<lambda>calls req. Inl ''Invalid URL'')
         \<lparr>client_context = \<lparr>relation = Some 7, relation_data = Map.empty\<rparr>,
          connector_name = ''c1''\<rparr> [] None []
       = (Inl (ConnectApiError ''Connect API call /connectors failed: Invalid URL''),
          [\<lparr>http_method = ''POST'', url = ''/connectors'', auth = ([], []),
            json_payload = Some (JObj [(''name'', JStr ''c1''), (''config'', JObj [])]),
            timeout = None\<rparr>])
   \<and> fst (BaseIntegrator_start_connector ''multi'' (\<lambda>calls req. Inl ''Invalid URL'') no_setup
            (test_integrator\<lparr>connect_client_relation := Some (7, Map.empty)\<rparr>)) = Inr ()
   \<and> map url (http_calls (snd
         (BaseIntegrator_start_connector ''multi'' (\<lambda>calls req. Inl ''Invalid URL'') no_setup
            (test_integrator\<lparr>connect_client_relation := Some (7, Map.empty)\<rparr>))))
       = [''/connectors'']"
  by (simp add: endpoint_def endpoints_def relation_field_def username_def password_def
        ConnectClient_start_connector_def request_def name_or_def
        BaseIntegrator_start_connector_def submit_connectors_def test_integrator_def
        no_setup_def started_def connector_names_def dynamic_config_def merged_config_def
        BaseIntegrator_client_def BaseIntegrator_client_context_def)

text \<open>
  Claim C4 (not met by the code). The claim expects \<^verbatim>\<open>task_status\<close> to return UNKNOWN
  when the transport fails. When the first call raises, \<^verbatim>\<open>task_status\<close> raises the
  ConnectApiError of \<^verbatim>\<open>request\<close>: unlike \<^verbatim>\<open>connector_status\<close> it does not catch it.
\<close>

theorem task_status_transport_failure:
  assumes "send calls
             \<lparr>http_method = ''GET'',
              url = hd (split CHR '','' (endpoints (client_context self)))
                      @ ''/connectors/'' @ name_or cname (connector_name self) @ ''/tasks'',
              auth = (username (client_context self), password (client_context self)),
              json_payload = None, timeout = Some 10\<rparr> = Inl e"
  shows "fst (ConnectClient_task_status send py_str self cname calls)
           = Inl (ConnectApiError (''Connect API call /connectors/''
                    @ name_or cname (connector_name self) @ ''/tasks failed: '' @ e))"
  using assms
  by (simp add: ConnectClient_task_status_def request_sent Let_def)

text \<open>An instance: a refused connection.\<close>

theorem task_status_transport_failure_witness:
  "fst (ConnectClient_task_status (\<lambda>calls req. Inl ''Connection refused'') (\<lambda>v. ''0'')
          \<lparr>client_context = \<lparr>relation = Some 7,
              relation_data = Map.empty(''endpoints'' \<mapsto> ''http://10.0.0.5:8083'')\<rparr>,
           connector_name = ''c1''\<rparr> None [])
     = Inl (ConnectApiError ''Connect API call /connectors/c1/tasks failed: Connection refused'')"
  using task_status_transport_failure
    [of "\<lambda>calls req. Inl ''Connection refused''" "[]"
        "\<lparr>client_context = \<lparr>relation = Some 7,
              relation_data = Map.empty(''endpoints'' \<mapsto> ''http://10.0.0.5:8083'')\<rparr>,
           connector_name = ''c1''\<rparr>" None "''Connection refused''" "\<lambda>v. ''0''"]
  by (simp add: name_or_def)

text \<open>
  Claim C5, as amended. \<^verbatim>\<open>connector_status\<close> returns UNKNOWN when the transport
  raises (the ConnectApiError is caught), UNASSIGNED on HTTP 404, UNKNOWN on every
  status other than 200 and 404, and on HTTP 200 with a body that decodes to an object:
  UNASSIGNED when the object has no \<^verbatim>\<open>connector\<close> entry or that entry is an object
  with no \<^verbatim>\<open>state\<close>, and the TaskStatus named by the state when it names one.
\<close>

theorem connector_status_cases:
  assumes req: "req =
             \<lparr>http_method = ''GET'',
              url = hd (split CHR '','' (endpoints (client_context self)))
                      @ ''/connectors/'' @ connector_name self @ ''/status'',
              auth = (username (client_context self), password (client_context self)),
              json_payload = None, timeout = Some 10\<rparr>"
  shows "(\<forall>e. send calls req = Inl e \<longrightarrow>
            fst (ConnectClient_connector_status send self calls) = Inr UNKNOWN)
       \<and> (\<forall>response. send calls req = Inr response \<longrightarrow>
            (status_code response = 404 \<longrightarrow>
               fst (ConnectClient_connector_status send self calls) = Inr UNASSIGNED)
          \<and> (status_code response \<noteq> 200 \<and> status_code response \<noteq> 404 \<longrightarrow>
               fst (ConnectClient_connector_status send self calls) = Inr UNKNOWN)
          \<and> (status_code response = 200 \<longrightarrow>
               (\<forall>doc. decoded response = Some (JObj doc) \<longrightarrow>
                  (map_of doc ''connector'' = None \<longrightarrow>
                     fst (ConnectClient_connector_status send self calls) = Inr UNASSIGNED)
                \<and> (\<forall>connector. map_of doc ''connector'' = Some (JObj connector) \<longrightarrow>
                     (map_of connector ''state'' = None \<longrightarrow>
                        fst (ConnectClient_connector_status send self calls) = Inr UNASSIGNED)
                   \<and> (\<forall>state status.
                         map_of connector ''state'' = Some state
                           \<and> TaskStatus_of state = Inr status \<longrightarrow>
                         fst (ConnectClient_connector_status send self calls) = Inr status)))))"
  unfolding req
  by (auto simp: ConnectClient_connector_status_def request_sent Let_def TaskStatus_of_def
           split: sum.splits error.splits)

text \<open>Instances: a running connector, and a refused connection.\<close>

theorem connector_status_cases_witness:
  "fst (ConnectClient_connector_status
          (\<lambda>calls req. Inr \<lparr>status_code = 200, content = ''body'',
              decoded = Some (JObj [(''name'', JStr ''c1''),
                                    (''connector'', JObj [(''state'', JStr ''RUNNING'')])])\<rparr>)
          \<lparr>client_context = \<lparr>relation = Some 7,
              relation_data = Map.empty(''endpoints'' \<mapsto> ''http://10.0.0.5:8083'')\<rparr>,
           connector_name = ''c1''\<rparr> []) = Inr RUNNING
   \<and> fst (ConnectClient_connector_status (\<lambda>calls req. Inl ''Connection refused'')
          \<lparr>client_context = \<lparr>relation = Some 7,
              relation_data = Map.empty(''endpoints'' \<mapsto> ''http://10.0.0.5:8083'')\<rparr>,
           connector_name = ''c1''\<rparr> []) = Inr UNKNOWN"
  using connector_status_cases
    [OF refl, of "\<lambda>calls req. Inr \<lparr>status_code = 200, content = ''body'',
              decoded = Some (JObj [(''name'', JStr ''c1''),
                                    (''connector'', JObj [(''state'', JStr ''RUNNING'')])])\<rparr>"
        "[]"
        "\<lparr>client_context = \<lparr>relation = Some 7,
              relation_data = Map.empty(''endpoints'' \<mapsto> ''http://10.0.0.5:8083'')\<rparr>,
           connector_name = ''c1''\<rparr>"]
    connector_status_cases
    [OF refl, of "\<lambda>calls req. Inl ''Connection refused''"
        "[]"
        "\<lparr>client_context = \<lparr>relation = Some 7,
              relation_data = Map.empty(''endpoints'' \<mapsto> ''http://10.0.0.5:8083'')\<rparr>,
           connector_name = ''c1''\<rparr>"]
  by (simp add: TaskStatus_of_def)

text \<open>
  The claim as stated says no failure is ever propagated. A 200 answer whose state
  is \<^verbatim>\<open>RESTARTING\<close>, no member of the enum, makes the enum lookup raise ValueError.
\<close>

theorem connector_status_restarting_counterexample:
  "fst (ConnectClient_connector_status
          (\<lambda>calls req. Inr \<lparr>status_code = 200, content = ''body'',
              decoded = Some (JObj [(''name'', JStr ''c1''),
                                    (''connector'', JObj [(''state'', JStr ''RESTARTING'')])])\<rparr>)
          \<lparr>client_context = \<lparr>relation = Some 7,
              relation_data = Map.empty(''endpoints'' \<mapsto> ''http://10.0.0.5:8083'')\<rparr>,
           connector_name = ''c1''\<rparr> []) = Inl ValueError"
  by (simp add: ConnectClient_connector_status_def request_sent TaskStatus_of_def)

section \<open>Properties of the integrator\<close>

text \<open>Recording an HTTP call changes nothing the integrator reads.\<close>

lemma dynamic_config_http_calls [simp]:
  "dynamic_config (s\<lparr>http_calls := c\<rparr>) = dynamic_config s"
  by (simp add: dynamic_config_def)

lemma connector_names_http_calls [simp]:
  "connector_names P (s\<lparr>http_calls := c\<rparr>) = connector_names P s"
  by (simp add: connector_names_def)

lemma unique_name_http_calls [simp]:
  "connector_unique_name (s\<lparr>http_calls := c\<rparr>) = connector_unique_name s"
  by (simp add: connector_unique_name_def split: option.splits)

lemma client_http_calls [simp]:
  "BaseIntegrator_client (s\<lparr>http_calls := c\<rparr>) = BaseIntegrator_client s"
  by (simp add: BaseIntegrator_client_def BaseIntegrator_client_context_def)

lemma merged_config_http_calls [simp]:
  "merged_config (s\<lparr>http_calls := c\<rparr>) ov = merged_config s ov"
  by (simp add: merged_config_def split: json.splits)

lemma started_http_calls [simp]: "started (s\<lparr>http_calls := c\<rparr>) = started s"
  by (simp add: started_def)

lemma started_set_started:
  "peer_relation s \<noteq> None \<Longrightarrow> started (set_started True s)"
  by (auto simp: started_def set_started_def)

lemma set_started_idem: "started s \<Longrightarrow> set_started True (set_started True s) = set_started True s"
  by (auto simp: started_def set_started_def split: option.splits)

lemma snd_except_api_error [simp]:
  "snd (except_api_error (r, c) s) = s\<lparr>http_calls := c\<rparr>"
proof (cases r)
  case (Inl e)
  then show ?thesis by (cases e) simp_all
next
  case (Inr u)
  then show ?thesis by simp
qed

text \<open>Each verb of the client makes exactly one call, whatever the answer.\<close>

lemma start_verb_call:
  "snd (ConnectClient_start_connector send self cfg cname calls)
     = calls @ [\<lparr>http_method = ''POST'',
                 url = hd (split CHR '','' (endpoints (client_context self))) @ ''/connectors'',
                 auth = (username (client_context self), password (client_context self)),
                 json_payload =
                   Some (JObj [(''name'', JStr (name_or cname (connector_name self))),
                               (''config'', JObj cfg)]),
                 timeout = None\<rparr>]"
  by (simp add: ConnectClient_start_connector_def request_sent Let_def
           split: sum.splits bool.splits)


lemma resume_verb_call:
  "snd (ConnectClient_resume_connector send self cname calls)
     = calls @ [\<lparr>http_method = ''PUT'',
                 url = hd (split CHR '','' (endpoints (client_context self)))
                         @ ''/connectors/'' @ name_or cname (connector_name self) @ ''/resume'',
                 auth = (username (client_context self), password (client_context self)),
                 json_payload = None,
                 timeout = None\<rparr>]"
  by (simp add: ConnectClient_resume_connector_def request_sent Let_def split: sum.splits)

lemma connector_status_call:
  "snd (ConnectClient_connector_status send self calls)
     = calls @ [\<lparr>http_method = ''GET'',
                 url = hd (split CHR '','' (endpoints (client_context self)))
                         @ ''/connectors/'' @ connector_name self @ ''/status'',
                 auth = (username (client_context self), password (client_context self)),
                 json_payload = None,
                 timeout = Some 10\<rparr>]"
  by (simp add: ConnectClient_connector_status_def request_sent Let_def
           split: sum.splits error.splits option.splits)

text \<open>A transport that accepts every create call.\<close>

lemma start_verb_accepted:
  assumes "\<forall>calls req. \<exists>r. send calls req = Inr r
             \<and> (status_code r = 201 \<or> status_code r = 409 \<and> already_exists r = Inr True)"
  shows "fst (ConnectClient_start_connector send self cfg cname calls) = Inr ()"
proof -
  let ?req = "\<lparr>http_method = ''POST'',
              url = hd (split CHR '','' (endpoints (client_context self))) @ ''/connectors'',
              auth = (username (client_context self), password (client_context self)),
              json_payload =
                Some (JObj [(''name'', JStr (name_or cname (connector_name self))),
                            (''config'', JObj cfg)]),
              timeout = None\<rparr>"
  from assms obtain r where "send calls ?req = Inr r"
    and "status_code r = 201 \<or> status_code r = 409 \<and> already_exists r = Inr True"
    by blast
  then show ?thesis
    by (auto simp: ConnectClient_start_connector_def request_sent Let_def)
qed

text \<open>One round of the loop, for a connector whose overrides are a dictionary.\<close>

lemma each_connector_Cons:
  assumes "map_of (dynamic_config s) n = Some ov" and "merged_config s ov = Inr cfg"
  shows "each_connector verb s (n # names)
           = (if fst (verb (BaseIntegrator_client s) cfg (Some n) (http_calls s)) = Inr ()
              then each_connector verb
                     (s\<lparr>http_calls :=
                          snd (verb (BaseIntegrator_client s) cfg (Some n) (http_calls s))\<rparr>) names
              else except_api_error
                     (verb (BaseIntegrator_client s) cfg (Some n) (http_calls s)) s)"
proof -
  obtain r c where v: "verb (BaseIntegrator_client s) cfg (Some n) (http_calls s) = (r, c)"
    by (cases "verb (BaseIntegrator_client s) cfg (Some n) (http_calls s)")
  show ?thesis
  proof (cases r)
    case (Inl e)
    with assms v show ?thesis by (cases e) simp_all
  next
    case (Inr u)
    with assms v show ?thesis by simp
  qed
qed

text \<open>The loop changes nothing but the list of calls.\<close>

lemma each_connector_frame:
  "(snd (each_connector verb s names))\<lparr>http_calls := c\<rparr> = s\<lparr>http_calls := c\<rparr>"
proof (induction names arbitrary: s)
  case Nil
  show ?case by simp
next
  case (Cons n names)
  show ?case
  proof (cases "map_of (dynamic_config s) n")
    case None
    then show ?thesis by simp
  next
    case (Some ov)
    show ?thesis
    proof (cases "merged_config s ov")
      case (Inl e)
      with Some show ?thesis by simp
    next
      case (Inr cfg)
      let ?v = "verb (BaseIntegrator_client s) cfg (Some n) (http_calls s)"
      show ?thesis
      proof (cases "fst ?v = Inr ()")
        case True
        then have "each_connector verb s (n # names)
                     = each_connector verb (s\<lparr>http_calls := snd ?v\<rparr>) names"
          by (simp add: each_connector_Cons [OF Some Inr] del: each_connector.simps)
        then show ?thesis
          by (simp add: Cons.IH)
      next
        case False
        then have "each_connector verb s (n # names) = except_api_error ?v s"
          by (simp add: each_connector_Cons [OF Some Inr] del: each_connector.simps)
        then show ?thesis
          by (cases ?v) simp
      qed
    qed
  qed
qed

lemma each_connector_peer [simp]:
  "peer_relation (snd (each_connector verb s names)) = peer_relation s"
proof -
  have "peer_relation ((snd (each_connector verb s names))\<lparr>http_calls := []\<rparr>)
          = peer_relation (s\<lparr>http_calls := []\<rparr>)"
    by (simp only: each_connector_frame)
  then show ?thesis by simp
qed


text \<open>The loop and the whole submission under a transport that accepts every create call.\<close>

lemma connector_name_client [simp]:
  "connector_name (BaseIntegrator_client s) = connector_unique_name s"
  by (simp add: BaseIntegrator_client_def)

lemma each_connector_accepted:
  assumes acc: "\<forall>calls req. \<exists>r. send calls req = Inr r
             \<and> (status_code r = 201 \<or> status_code r = 409 \<and> already_exists r = Inr True)"
    and ov: "\<forall>n \<in> set names. map_of (dynamic_config s) n = Some (JObj (ov n))"
  shows "each_connector (ConnectClient_start_connector send) (s\<lparr>http_calls := c\<rparr>) names
           = (Inr True,
              s\<lparr>http_calls := c @ map (\<lambda>n.
                  \<lparr>http_method = ''POST'',
                   url = hd (split CHR '','' (endpoints (client_context (BaseIntegrator_client s))))
                           @ ''/connectors'',
                   auth = (username (client_context (BaseIntegrator_client s)),
                           password (client_context (BaseIntegrator_client s))),
                   json_payload =
                     Some (JObj [(''name'', JStr (name_or (Some n) (connector_unique_name s))),
                                 (''config'',
                                  JObj (dict_or (to_dict (formatter s) (config s) SourceMode)
                                          (ov n)))]),
                   timeout = None\<rparr>) names\<rparr>)"
  using ov
proof (induction names arbitrary: c)
  case Nil
  show ?case by simp
next
  case (Cons n names)
  from Cons.prems have here: "map_of (dynamic_config (s\<lparr>http_calls := c\<rparr>)) n = Some (JObj (ov n))"
    and rest: "\<forall>n \<in> set names. map_of (dynamic_config s) n = Some (JObj (ov n))"
    by simp_all
  have mc: "merged_config (s\<lparr>http_calls := c\<rparr>) (JObj (ov n))
              = Inr (dict_or (to_dict (formatter s) (config s) SourceMode) (ov n))"
    by (simp add: merged_config_def)
  show ?case
    unfolding each_connector_Cons [OF here mc]
    by (simp add: start_verb_accepted [OF acc] start_verb_call Cons.IH [OF rest]
          del: each_connector.simps)
qed


lemma http_calls_set_started [simp]: "http_calls (set_started v s) = http_calls s"
  by (simp add: set_started_def split: option.splits)

lemma started_set_started_calls:
  "peer_relation s \<noteq> None \<Longrightarrow> started (set_started True (s\<lparr>http_calls := c\<rparr>))"
  by (rule started_set_started) simp

lemma submit_connectors_accepted:
  assumes acc: "\<forall>calls req. \<exists>r. send calls req = Inr r
             \<and> (status_code r = 201 \<or> status_code r = 409 \<and> already_exists r = Inr True)"
    and ov: "\<forall>n \<in> set (connector_names P s). map_of (dynamic_config s) n = Some (JObj (ov n))"
  shows "submit_connectors P (ConnectClient_start_connector send) s
           = (Inr (),
              set_started True
                (s\<lparr>http_calls := http_calls s @
                    (if connector_names P s = [] then
                       [\<lparr>http_method = ''POST'',
                         url = hd (split CHR '','' (endpoints (client_context (BaseIntegrator_client s))))
                                 @ ''/connectors'',
                         auth = (username (client_context (BaseIntegrator_client s)),
                                 password (client_context (BaseIntegrator_client s))),
                         json_payload =
                           Some (JObj [(''name'', JStr (name_or None (connector_unique_name s))),
                                       (''config'',
                                        JObj (dict_or (to_dict (formatter s) (config s) SourceMode)
                                                (dynamic_config s)))]),
                         timeout = None\<rparr>]
                     else
                       map (\<lambda>n.
                         \<lparr>http_method = ''POST'',
                          url = hd (split CHR '','' (endpoints (client_context (BaseIntegrator_client s))))
                                  @ ''/connectors'',
                          auth = (username (client_context (BaseIntegrator_client s)),
                                  password (client_context (BaseIntegrator_client s))),
                          json_payload =
                            Some (JObj [(''name'', JStr (name_or (Some n) (connector_unique_name s))),
                                        (''config'',
                                         JObj (dict_or (to_dict (formatter s) (config s) SourceMode)
                                                 (ov n)))]),
                          timeout = None\<rparr>) (connector_names P s))\<rparr>))"
proof (cases "connector_names P s = []")
  case True
  let ?v = "ConnectClient_start_connector send (BaseIntegrator_client s)
              (dict_or (to_dict (formatter s) (config s) SourceMode) (dynamic_config s))
              None (http_calls s)"
  have "?v = (Inr (), snd ?v)"
    using start_verb_accepted [OF acc, of "BaseIntegrator_client s"
        "dict_or (to_dict (formatter s) (config s) SourceMode) (dynamic_config s)"
        None "http_calls s"]
    by (metis prod.collapse)
  then have v: "?v = (Inr (), http_calls s @
                       [\<lparr>http_method = ''POST'',
                         url = hd (split CHR '','' (endpoints (client_context (BaseIntegrator_client s))))
                                 @ ''/connectors'',
                         auth = (username (client_context (BaseIntegrator_client s)),
                                 password (client_context (BaseIntegrator_client s))),
                         json_payload =
                           Some (JObj [(''name'', JStr (name_or None (connector_unique_name s))),
                                       (''config'',
                                        JObj (dict_or (to_dict (formatter s) (config s) SourceMode)
                                                (dynamic_config s)))]),
                         timeout = None\<rparr>])"
    by (simp add: start_verb_call)
  from True show ?thesis
    by (simp add: submit_connectors_def v)
next
  case False
  from False show ?thesis
    using each_connector_accepted [OF acc ov, of "http_calls s"]
    by (simp add: submit_connectors_def del: each_connector.simps)
qed






subsection \<open>Claims about the integrator\<close>

text \<open>
  Claim C2. When \<^verbatim>\<open>setup\<close> returns, a peer relation holds the flag, the overrides
  of every declared connector are a dictionary and the cluster accepts every create
  call (201, or 409 "already exists"), \<^verbatim>\<open>start_connector\<close> returns normally and leaves
  the integrator started; called again on the state it left, it returns normally with
  that state unchanged: no create call is made and the flag stays set.
\<close>

theorem start_twice:
  assumes su: "run_setup s = (Inr (), s1)"
    and peer: "peer_relation s1 \<noteq> None"
    and ov: "\<forall>n \<in> set (connector_names P s1). \<exists>d. map_of (dynamic_config s1) n = Some (JObj d)"
    and acc: "\<forall>calls req. \<exists>r. send calls req = Inr r
             \<and> (status_code r = 201 \<or> status_code r = 409 \<and> already_exists r = Inr True)"
  shows "fst (BaseIntegrator_start_connector P send run_setup s) = Inr ()
       \<and> started (snd (BaseIntegrator_start_connector P send run_setup s))
       \<and> BaseIntegrator_start_connector P send run_setup
            (snd (BaseIntegrator_start_connector P send run_setup s))
           = (Inr (), snd (BaseIntegrator_start_connector P send run_setup s))"
proof -
  let ?t = "snd (BaseIntegrator_start_connector P send run_setup s)"
  have first: "fst (BaseIntegrator_start_connector P send run_setup s) = Inr () \<and> started ?t"
  proof (cases "started s")
    case True
    then show ?thesis by (simp add: BaseIntegrator_start_connector_def)
  next
    case False
    from ov obtain f where
      f: "\<forall>n \<in> set (connector_names P s1). map_of (dynamic_config s1) n = Some (JObj (f n))"
      using bchoice [of "set (connector_names P s1)"
          "\<lambda>n d. map_of (dynamic_config s1) n = Some (JObj d)"]
      by blast
    from False su show ?thesis
      by (simp add: BaseIntegrator_start_connector_def submit_connectors_accepted [OF acc f]
            started_set_started_calls [OF peer])
  qed
  then have "BaseIntegrator_start_connector P send run_setup ?t = (Inr (), ?t)"
    by (simp add: BaseIntegrator_start_connector_def)
  with first show ?thesis by simp
qed

text \<open>An instance: the test integrator against a cluster that answers 201.\<close>

theorem start_twice_witness:
  "fst (BaseIntegrator_start_connector ''multi'' created no_setup test_integrator) = Inr ()
   \<and> started (snd (BaseIntegrator_start_connector ''multi'' created no_setup test_integrator))
   \<and> BaseIntegrator_start_connector ''multi'' created no_setup
        (snd (BaseIntegrator_start_connector ''multi'' created no_setup test_integrator))
       = (Inr (), snd (BaseIntegrator_start_connector ''multi'' created no_setup test_integrator))"
proof -
  have su: "no_setup test_integrator = (Inr (), test_integrator)"
    by (simp add: no_setup_def)
  have peer: "peer_relation test_integrator \<noteq> None"
    by (simp add: test_integrator_def)
  have ov: "\<forall>n \<in> set (connector_names ''multi'' test_integrator).
              \<exists>d. map_of (dynamic_config test_integrator) n = Some (JObj d)"
    by (simp add: connector_names_def dynamic_config_def test_integrator_def)
  have acc: "\<forall>calls req. \<exists>r. created calls req = Inr r
             \<and> (status_code r = 201 \<or> status_code r = 409 \<and> already_exists r = Inr True)"
    by (simp add: created_def)
  from start_twice [where run_setup = no_setup and s = test_integrator and P = "''multi''",
      OF su peer ov acc]
  show ?thesis .
qed

text \<open>
  Claim C8. In multi-connector mode (some key of the dynamic configuration carries
  the prefix), when the integrator is not started, \<^verbatim>\<open>setup\<close> returns, the overrides of
  every connector are a dictionary and the cluster accepts every create call,
  \<^verbatim>\<open>start_connector\<close> makes exactly one create call per connector identifier, in the
  order of the keys, and nothing else; the identifiers are distinct, and the
  configuration of each call is the formatter output in which the connector's
  overrides win on every shared key.
\<close>

theorem start_multi_connector:
  assumes ns: "\<not> started s"
    and su: "run_setup s = (Inr (), s1)"
    and multi: "connector_names P s1 \<noteq> []"
    and keys: "distinct (map fst (dynamic_config s1))"
    and ov: "\<forall>n \<in> set (connector_names P s1).
               map_of (dynamic_config s1) n = Some (JObj (ov n)) \<and> distinct (map fst (ov n))"
    and acc: "\<forall>calls req. \<exists>r. send calls req = Inr r
             \<and> (status_code r = 201 \<or> status_code r = 409 \<and> already_exists r = Inr True)"
  shows "http_calls (snd (BaseIntegrator_start_connector P send run_setup s))
           = http_calls s1 @
               map (\<lambda>n.
                 \<lparr>http_method = ''POST'',
                  url = hd (split CHR '','' (endpoints (client_context (BaseIntegrator_client s1))))
                          @ ''/connectors'',
                  auth = (username (client_context (BaseIntegrator_client s1)),
                          password (client_context (BaseIntegrator_client s1))),
                  json_payload =
                    Some (JObj [(''name'', JStr (name_or (Some n) (connector_unique_name s1))),
                                (''config'',
                                 JObj (dict_or (to_dict (formatter s1) (config s1) SourceMode)
                                         (ov n)))]),
                  timeout = None\<rparr>) (connector_names P s1)
       \<and> distinct (connector_names P s1)
       \<and> (\<forall>n \<in> set (connector_names P s1).
            map_of (dict_or (to_dict (formatter s1) (config s1) SourceMode) (ov n))
              = map_of (to_dict (formatter s1) (config s1) SourceMode) ++ map_of (ov n))"
proof -
  from ov have f: "\<forall>n \<in> set (connector_names P s1). map_of (dynamic_config s1) n = Some (JObj (ov n))"
    by simp
  from ns su multi have calls: "http_calls (snd (BaseIntegrator_start_connector P send run_setup s))
           = http_calls s1 @
               map (\<lambda>n.
                 \<lparr>http_method = ''POST'',
                  url = hd (split CHR '','' (endpoints (client_context (BaseIntegrator_client s1))))
                          @ ''/connectors'',
                  auth = (username (client_context (BaseIntegrator_client s1)),
                          password (client_context (BaseIntegrator_client s1))),
                  json_payload =
                    Some (JObj [(''name'', JStr (name_or (Some n) (connector_unique_name s1))),
                                (''config'',
                                 JObj (dict_or (to_dict (formatter s1) (config s1) SourceMode)
                                         (ov n)))]),
                  timeout = None\<rparr>) (connector_names P s1)"
    by (simp add: BaseIntegrator_start_connector_def submit_connectors_accepted [OF acc f])
  from keys have d: "distinct (connector_names P s1)"
    by (simp add: connector_names_def)
  from ov have m: "\<forall>n \<in> set (connector_names P s1).
            map_of (dict_or (to_dict (formatter s1) (config s1) SourceMode) (ov n))
              = map_of (to_dict (formatter s1) (config s1) SourceMode) ++ map_of (ov n)"
    by (simp add: map_of_dict_or)
  from calls d m show ?thesis by blast
qed

text \<open>An instance: the two connectors of the test integrator, with the payload of each call.\<close>

theorem start_multi_connector_witness:
  "map json_payload
     (http_calls (snd (BaseIntegrator_start_connector ''multi'' created no_setup test_integrator)))
   = [Some (JObj [(''name'', JStr ''multi_a_test-integrator_r7_6c2fa0ab''),
                  (''config'',
                   JObj [(''file'', JStr ''/var/snap/charmed-kafka/common/var/log/connect/test.jsonl''),
                         (''tasks.max'', JInt 1),
                         (''topic'', JStr ''alpha''),
                         (''topic.creation.default.partitions'', JInt 10),
                         (''topic.creation.default.replication.factor'', JInt (- 1)),
                         (''value.converter'', JStr ''org.apache.kafka.connect.json.JsonConverter'')])]),
      Some (JObj [(''name'', JStr ''multi_b_test-integrator_r7_6c2fa0ab''),
                  (''config'',
                   JObj [(''file'', JStr ''/tmp/b.jsonl''),
                         (''tasks.max'', JInt 1),
                         (''topic'', JStr ''source_test''),
                         (''topic.creation.default.partitions'', JInt 10),
                         (''topic.creation.default.replication.factor'', JInt (- 1)),
                         (''value.converter'', JStr ''org.apache.kafka.connect.json.JsonConverter''),
                         (''extra'', JInt 1)])])]"
proof -
  let ?ov = "\<lambda>n. if n = ''multi_a_test-integrator_r7_6c2fa0ab''
                 then [(''topic'', JStr ''alpha'')]
                 else [(''file'', JStr ''/tmp/b.jsonl''), (''extra'', JInt 1)]"
  have ns: "\<not> started test_integrator"
    by (simp add: started_def test_integrator_def)
  have su: "no_setup test_integrator = (Inr (), test_integrator)"
    by (simp add: no_setup_def)
  have names: "connector_names ''multi'' test_integrator
                 = [''multi_a_test-integrator_r7_6c2fa0ab'', ''multi_b_test-integrator_r7_6c2fa0ab'']"
    by (simp add: connector_names_def dynamic_config_def test_integrator_def)
  have multi: "connector_names ''multi'' test_integrator \<noteq> []"
    by (simp add: names)
  have keys: "distinct (map fst (dynamic_config test_integrator))"
    by (simp add: dynamic_config_def test_integrator_def)
  have ov: "\<forall>n \<in> set (connector_names ''multi'' test_integrator).
              map_of (dynamic_config test_integrator) n = Some (JObj (?ov n))
                \<and> distinct (map fst (?ov n))"
    unfolding names by (simp add: dynamic_config_def test_integrator_def)
  have acc: "\<forall>calls req. \<exists>r. created calls req = Inr r
             \<and> (status_code r = 201 \<or> status_code r = 409 \<and> already_exists r = Inr True)"
    by (simp add: created_def)
  have fmt: "to_dict (formatter test_integrator) (config test_integrator) SourceMode
               = [(''file'', JStr ''/var/snap/charmed-kafka/common/var/log/connect/test.jsonl''),
                  (''tasks.max'', JInt 1),
                  (''topic'', JStr ''source_test''),
                  (''topic.creation.default.partitions'', JInt 10),
                  (''topic.creation.default.replication.factor'', JInt (- 1)),
                  (''value.converter'', JStr ''org.apache.kafka.connect.json.JsonConverter'')]"
    by (simp add: to_dict_def test_integrator_def ConfigFormatter_def)
  from start_multi_connector
    [where run_setup = no_setup and s = test_integrator and P = "''multi''",
     OF ns su multi keys ov acc]
  have "http_calls (snd (BaseIntegrator_start_connector ''multi'' created no_setup test_integrator))
          = http_calls test_integrator @
              map (\<lambda>n.
                 \<lparr>http_method = ''POST'',
                  url = hd (split CHR '','' (endpoints (client_context (BaseIntegrator_client test_integrator))))
                          @ ''/connectors'',
                  auth = (username (client_context (BaseIntegrator_client test_integrator)),
                          password (client_context (BaseIntegrator_client test_integrator))),
                  json_payload =
                    Some (JObj [(''name'', JStr (name_or (Some n) (connector_unique_name test_integrator))),
                                (''config'',
                                 JObj (dict_or (to_dict (formatter test_integrator) (config test_integrator) SourceMode)
                                         (?ov n)))]),
                  timeout = None\<rparr>) (connector_names ''multi'' test_integrator)"
    by (rule conjunct1)
  then show ?thesis
    unfolding names fmt
    by (simp add: name_or_def dict_or_def) (simp add: test_integrator_def)
qed

text \<open>
  Claim C9. \<^verbatim>\<open>maybe_resume_connector\<close> reads the connector status with one GET, and
  then makes the PUT of the resume verb exactly when that status is STOPPED: for
  every other status, and when reading the status raises, no further call is made.
\<close>

theorem maybe_resume_calls:
  "http_calls (snd (maybe_resume_connector send s))
     = http_calls s @
        \<lparr>http_method = ''GET'',
         url = hd (split CHR '','' (endpoints (client_context (BaseIntegrator_client s))))
                 @ ''/connectors/'' @ connector_unique_name s @ ''/status'',
         auth = (username (client_context (BaseIntegrator_client s)),
                 password (client_context (BaseIntegrator_client s))),
         json_payload = None, timeout = Some 10\<rparr>
        # (if fst (BaseIntegrator_connector_status send s) = Inr STOPPED
           then [\<lparr>http_method = ''PUT'',
                  url = hd (split CHR '','' (endpoints (client_context (BaseIntegrator_client s))))
                          @ ''/connectors/'' @ name_or None (connector_unique_name s) @ ''/resume'',
                  auth = (username (client_context (BaseIntegrator_client s)),
                          password (client_context (BaseIntegrator_client s))),
                  json_payload = None, timeout = None\<rparr>]
           else [])"
proof -
  let ?get = "\<lparr>http_method = ''GET'',
         url = hd (split CHR '','' (endpoints (client_context (BaseIntegrator_client s))))
                 @ ''/connectors/'' @ connector_unique_name s @ ''/status'',
         auth = (username (client_context (BaseIntegrator_client s)),
                 password (client_context (BaseIntegrator_client s))),
         json_payload = None, timeout = Some 10\<rparr>"
  let ?s1 = "s\<lparr>http_calls := http_calls s @ [?get]\<rparr>"
  obtain r where cs:
    "ConnectClient_connector_status send (BaseIntegrator_client s) (http_calls s)
       = (r, http_calls s @ [?get])"
    using connector_status_call [of send "BaseIntegrator_client s" "http_calls s"]
    by (cases "ConnectClient_connector_status send (BaseIntegrator_client s) (http_calls s)") simp
  then have st: "BaseIntegrator_connector_status send s = (r, ?s1)"
    by (simp add: BaseIntegrator_connector_status_def)
  show ?thesis
  proof (cases "r = Inr STOPPED")
    case True
    let ?v = "ConnectClient_resume_connector send (BaseIntegrator_client s) None
                (http_calls s @ [?get])"
    have "snd (except_api_error ?v ?s1) = s\<lparr>http_calls := snd ?v\<rparr>"
      by (cases ?v) simp
    then obtain b where "except_api_error ?v ?s1 = (b, s\<lparr>http_calls := snd ?v\<rparr>)"
      by (cases "except_api_error ?v ?s1") simp
    with True st show ?thesis
      by (cases b) (simp_all add: maybe_resume_connector_def resume_verb_call)
  next
    case False
    with st show ?thesis
      by (cases r) (auto simp: maybe_resume_connector_def)
  qed
qed

text \<open>Instances: a stopped connector is resumed, a paused one is left alone.\<close>

theorem maybe_resume_calls_witness:
  "map http_method
     (http_calls (snd (maybe_resume_connector
        (\<lambda>calls req.
            if http_method req = ''GET''
            then Inr \<lparr>status_code = 200, content = [],
                      decoded = Some (JObj [(''connector'', JObj [(''state'', JStr ''STOPPED'')])])\<rparr>
            else Inr \<lparr>status_code = 202, content = [], decoded = None\<rparr>)
        test_integrator)))
     = [''GET'', ''PUT'']
   \<and> map http_method
     (http_calls (snd (maybe_resume_connector
        (\<lambda>calls req.
            Inr \<lparr>status_code = 200, content = [],
                 decoded = Some (JObj [(''connector'', JObj [(''state'', JStr ''PAUSED'')])])\<rparr>)
        test_integrator)))
     = [''GET'']"
  using maybe_resume_calls
    [of "\<lambda>calls req.
            if http_method req = ''GET''
            then Inr \<lparr>status_code = 200, content = [],
                      decoded = Some (JObj [(''connector'', JObj [(''state'', JStr ''STOPPED'')])])\<rparr>
            else Inr \<lparr>status_code = 202, content = [], decoded = None\<rparr>"
        test_integrator]
    maybe_resume_calls
    [of "\<lambda>calls req.
            Inr \<lparr>status_code = 200, content = [],
                 decoded = Some (JObj [(''connector'', JObj [(''state'', JStr ''PAUSED'')])])\<rparr>"
        test_integrator]
  by (simp add: BaseIntegrator_connector_status_def ConnectClient_connector_status_def
        request_sent TaskStatus_of_def test_integrator_def)



end
